theory Spec2Isabelle
  imports Complex_Main
begin

section \<open>Mood Tracker API: the request model and the /predict handler of app.py\<close>

text \<open>
  The development follows \<^verbatim>\<open>app.py\<close>. Python floats are modelled by the real numbers they
  denote (the payload's NaN and infinities never pass the \<^verbatim>\<open>ge=0\<close> and upper-bound checks),
  Python's unbounded \<^verbatim>\<open>int\<close> by \<^typ>\<open>int\<close>, \<^verbatim>\<open>str\<close> by \<^typ>\<open>string\<close>. A request payload is
  taken with the JSON types of the schema (numbers for the numeric fields, strings for
  the text and \<^verbatim>\<open>Literal\<close> fields); type coercion of other JSON values is the
  validation library's and is not modelled.
\<close>

subsection \<open>Exceptions\<close>

datatype py_exn = ValueError string | KeyError string | OtherException string

text \<open>\<^verbatim>\<open>str(e)\<close>: the message of the exception; a \<^verbatim>\<open>KeyError\<close> prints its key quoted.\<close>

fun str_exn :: "py_exn \<Rightarrow> string" where
  "str_exn (ValueError m) = m"
| "str_exn (KeyError k) = [CHR 0x27] @ k @ [CHR 0x27]"
| "str_exn (OtherException m) = m"

subsection \<open>class MoodInput\<close>

text \<open>
  The eight metric fields are a record of their own, since they are exactly the keyword
  arguments of \<^verbatim>\<open>generate_recommendations\<close>; \<^verbatim>\<open>MoodInput\<close> extends it with \<^verbatim>\<open>day_rating\<close>
  (declared first in the source; the order of fields carries no meaning).
\<close>

record Metrics =
  water_intake :: real
  people_met :: int
  exercise :: int
  sleep :: real
  screen_time :: real
  outdoor_time :: real
  stress_level :: string
  food_quality :: string

record MoodInput = Metrics +
  day_rating :: string

text \<open>
  One entry of a validation error: the field and the kind of failure
  (\<^verbatim>\<open>greater_than_equal\<close> for \<^verbatim>\<open>ge=0\<close>, \<^verbatim>\<open>value_error\<close> for an exception raised by a field
  validator, \<^verbatim>\<open>literal_error\<close> for a value outside a \<^verbatim>\<open>Literal\<close>).
\<close>

datatype error_type = greater_than_equal | value_error py_exn | literal_error

type_synonym line_error = "string \<times> error_type"

definition max_values :: "string \<rightharpoonup> real" where
  "max_values =
     [''water_intake'' \<mapsto> 15, ''sleep'' \<mapsto> 24, ''screen_time'' \<mapsto> 24, ''outdoor_time'' \<mapsto> 24]"

text \<open>
  \<^verbatim>\<open>check_reasonable_values(cls, v, info)\<close> with \<^verbatim>\<open>field_name = info.field_name\<close>:
  the dictionary lookup raises \<^verbatim>\<open>KeyError\<close> on a missing key, the comparison is strict.
\<close>

definition check_reasonable_values :: "string \<Rightarrow> real \<Rightarrow> py_exn + real" where
  "check_reasonable_values field_name v =
     (case max_values field_name of
        None \<Rightarrow> Inl (KeyError field_name)
      | Some m \<Rightarrow>
          if v > m then Inl (ValueError (field_name @ '' seems unreasonably high''))
          else Inr v)"

text \<open>
  A \<^verbatim>\<open>float\<close> field with \<^verbatim>\<open>ge=0\<close> and the field validator (mode after: it runs only
  once the field's own constraint holds); an \<^verbatim>\<open>int\<close> field with \<^verbatim>\<open>ge=0\<close>; a \<^verbatim>\<open>Literal\<close>
  field; a plain \<^verbatim>\<open>str\<close> field, which has no constraint. Each gives the errors of its field.
  The validator is registered for the four keys of \<^verbatim>\<open>max_values\<close> only, so its lookup
  finds every field name it is called with and \<^verbatim>\<open>ValueError\<close> is the one exception it
  raises there.
\<close>

definition float_field :: "string \<Rightarrow> real \<Rightarrow> line_error list" where
  "float_field name v =
     (if 0 \<le> v then
        (case check_reasonable_values name v of
           Inl e \<Rightarrow> [(name, value_error e)]
         | Inr _ \<Rightarrow> [])
      else [(name, greater_than_equal)])"

definition int_field :: "string \<Rightarrow> int \<Rightarrow> line_error list" where
  "int_field name v = (if 0 \<le> v then [] else [(name, greater_than_equal)])"

definition literal_field :: "string \<Rightarrow> string list \<Rightarrow> string \<Rightarrow> line_error list" where
  "literal_field name allowed v = (if v \<in> set allowed then [] else [(name, literal_error)])"

definition str_field :: "string \<Rightarrow> string \<Rightarrow> line_error list" where
  "str_field name v = []"

text \<open>The errors of a payload, field by field in the order of the class body.\<close>

definition validation_errors :: "MoodInput \<Rightarrow> line_error list" where
  "validation_errors p =
     str_field ''day_rating'' (day_rating p)
     @ float_field ''water_intake'' (water_intake p)
     @ int_field ''people_met'' (people_met p)
     @ int_field ''exercise'' (exercise p)
     @ float_field ''sleep'' (sleep p)
     @ float_field ''screen_time'' (screen_time p)
     @ float_field ''outdoor_time'' (outdoor_time p)
     @ literal_field ''stress_level'' [''Low'', ''Medium'', ''High''] (stress_level p)
     @ literal_field ''food_quality'' [''Healthy'', ''Moderate'', ''Unhealthy''] (food_quality p)"

text \<open>Validation: the model itself, or one aggregated error holding every field's errors.\<close>

definition model_validate :: "MoodInput \<Rightarrow> line_error list + MoodInput" where
  "model_validate p =
     (let errs = validation_errors p in if errs = [] then Inr p else Inl errs)"

subsection \<open>class Recommendation, class MoodOutput\<close>

datatype priority = High | Medium | Low

record Recommendation =
  priority :: priority
  recommendation :: string
  category :: string

record MoodOutput =
  mood_score :: real
  recommendations :: "Recommendation list"

subsection \<open>round(x, ndigits)\<close>

text \<open>
  Python rounds to the nearest multiple of the unit and a tie to the even neighbour. On
  the reals the result of \<^verbatim>\<open>round(x, 1)\<close> is a number of tenths; the float that Python
  returns is the one nearest to it, which lies between the same representable bounds.
\<close>

definition round_half_even :: "real \<Rightarrow> int" where
  "round_half_even y =
     (let f = \<lfloor>y\<rfloor>; d = y - of_int f in
      if d < 1 / 2 then f
      else if 1 / 2 < d then f + 1
      else if even f then f else f + 1)"

definition py_round :: "real \<Rightarrow> nat \<Rightarrow> real" where
  "py_round x ndigits = of_int (round_half_even (x * 10 ^ ndigits)) / 10 ^ ndigits"

subsection \<open>The handler predict_mood and the route POST /predict\<close>

text \<open>
  \<^verbatim>\<open>predict_mood_score\<close> and \<^verbatim>\<open>generate_recommendations\<close> are imported from other modules;
  the handler is modelled for any two such functions. Each returns a value or raises an
  exception (\<open>Inl\<close>). The recommender's result is taken as already of the shape of
  \<^verbatim>\<open>List[Recommendation]\<close>. Every call is recorded as an event, so that which functions ran,
  in which order and on which arguments is part of the handler's result.
\<close>

type_synonym scorer = "MoodInput \<Rightarrow> py_exn + real"

type_synonym recommender = "Metrics \<Rightarrow> py_exn + Recommendation list"

datatype event = ScorerCall MoodInput | RecommenderCall Metrics

datatype response = Ok200 MoodOutput | Http422 "line_error list" | Http500 string

text \<open>The nine keyword arguments of the call of \<^verbatim>\<open>predict_mood_score\<close>.\<close>

definition scorer_args :: "MoodInput \<Rightarrow> MoodInput" where
  "scorer_args input_data =
     \<lparr>water_intake = water_intake input_data,
      people_met = people_met input_data,
      exercise = exercise input_data,
      sleep = sleep input_data,
      screen_time = screen_time input_data,
      outdoor_time = outdoor_time input_data,
      stress_level = stress_level input_data,
      food_quality = food_quality input_data,
      day_rating = day_rating input_data\<rparr>"

text \<open>The eight keyword arguments of the call of \<^verbatim>\<open>generate_recommendations\<close>.\<close>

definition recommender_args :: "MoodInput \<Rightarrow> Metrics" where
  "recommender_args input_data =
     \<lparr>water_intake = water_intake input_data,
      people_met = people_met input_data,
      exercise = exercise input_data,
      sleep = sleep input_data,
      screen_time = screen_time input_data,
      outdoor_time = outdoor_time input_data,
      stress_level = stress_level input_data,
      food_quality = food_quality input_data\<rparr>"

text \<open>
  The body of \<^verbatim>\<open>predict_mood\<close>: the scorer runs first, then the recommender, then the
  score is rounded to one decimal; \<^verbatim>\<open>except Exception as e\<close> turns an exception of either
  call into status 500 with \<^verbatim>\<open>detail=str(e)\<close>.
\<close>

definition predict_mood :: "scorer \<Rightarrow> recommender \<Rightarrow> MoodInput \<Rightarrow> response \<times> event list" where
  "predict_mood predict_mood_score generate_recommendations input_data =
     (case predict_mood_score (scorer_args input_data) of
        Inl e \<Rightarrow> (Http500 (str_exn e), [ScorerCall (scorer_args input_data)])
      | Inr score \<Rightarrow>
          (case generate_recommendations (recommender_args input_data) of
             Inl e \<Rightarrow>
               (Http500 (str_exn e),
                [ScorerCall (scorer_args input_data), RecommenderCall (recommender_args input_data)])
           | Inr recs \<Rightarrow>
               (Ok200 \<lparr>mood_score = py_round score 1, recommendations = recs\<rparr>,
                [ScorerCall (scorer_args input_data), RecommenderCall (recommender_args input_data)])))"

text \<open>
  The route: the body is validated against \<^verbatim>\<open>MoodInput\<close> before the handler is called;
  a payload that fails is answered with status 422 and the handler does not run.
\<close>

definition post_predict :: "scorer \<Rightarrow> recommender \<Rightarrow> MoodInput \<Rightarrow> response \<times> event list" where
  "post_predict predict_mood_score generate_recommendations payload =
     (case model_validate payload of
        Inl errs \<Rightarrow> (Http422 errs, [])
      | Inr input_data \<Rightarrow> predict_mood predict_mood_score generate_recommendations input_data)"

subsection \<open>The scorer's contract\<close>

text \<open>
  Modelled from the spec: the module \<^verbatim>\<open>model\<close> with \<^verbatim>\<open>predict_mood_score\<close> is not among the
  sources, and the spec fixes no formula for it (the weighting is an implementation
  choice). What the spec states is its range (section 4.1: given a validated MetricsInput
  it produces a real number in [0,10], clamped so that the output never leaves [0,10]).
  The predicate says this of a scorer: on a validated input, a score it returns lies in
  [0,10].
\<close>

definition scorer_in_range :: "scorer \<Rightarrow> bool" where
  "scorer_in_range f =
     (\<forall>inp v. model_validate inp = Inr inp \<longrightarrow> f inp = Inr v \<longrightarrow> 0 \<le> v \<and> v \<le> 10)"

subsection \<open>The recommender as the spec describes it\<close>

text \<open>
  Modelled from the spec: the module \<^verbatim>\<open>recommendations\<close> with \<^verbatim>\<open>generate_recommendations\<close>
  is not among the sources. Section 4.2 of the spec describes it: a fixed table of
  threshold rules, each evaluated on its own (several may fire); each fired rule emits
  exactly one Recommendation; the result is ordered by priority rank (High before Medium
  before Low) and, within equal priority, by the declaration order of the rule table
  (stable sort). The spec gives the rules by example only, so the table is a parameter.
\<close>

record threshold_rule =
  fires :: "Metrics \<Rightarrow> bool"
  emits :: Recommendation

fun priority_order :: "priority \<Rightarrow> nat" where
  "priority_order High = 0"
| "priority_order Medium = 1"
| "priority_order Low = 2"

definition fired :: "threshold_rule list \<Rightarrow> Metrics \<Rightarrow> Recommendation list" where
  "fired rule_table m = map emits (filter (\<lambda>r. fires r m) rule_table)"

definition generate_recommendations :: "threshold_rule list \<Rightarrow> Metrics \<Rightarrow> Recommendation list" where
  "generate_recommendations rule_table m =
     sort_key (\<lambda>r. priority_order (priority r)) (fired rule_table m)"

subsection \<open>Example inputs and example collaborators\<close>

text \<open>
  The inputs named by the spec's testable properties: the minimum-metric input, the
  maximum-allowed-metric input (the two unbounded fields at large values), and the three
  end-to-end scenarios of section 8.
\<close>

definition minimum_input :: MoodInput where
  "minimum_input =
     \<lparr>water_intake = 0, people_met = 0, exercise = 0, sleep = 0, screen_time = 0,
      outdoor_time = 0, stress_level = ''Low'', food_quality = ''Healthy'',
      day_rating = ''ok''\<rparr>"

definition maximum_input :: MoodInput where
  "maximum_input =
     \<lparr>water_intake = 15, people_met = 1000, exercise = 1440, sleep = 24, screen_time = 24,
      outdoor_time = 24, stress_level = ''High'', food_quality = ''Unhealthy'',
      day_rating = ''ok''\<rparr>"

definition scenario_1 :: MoodInput where
  "scenario_1 =
     \<lparr>water_intake = 2, people_met = 3, exercise = 30, sleep = 15 / 2, screen_time = 4,
      outdoor_time = 1, stress_level = ''Low'', food_quality = ''Healthy'',
      day_rating = ''ok''\<rparr>"

definition scenario_2 :: MoodInput where
  "scenario_2 =
     \<lparr>water_intake = 2, people_met = 0, exercise = 30, sleep = 3, screen_time = 12,
      outdoor_time = 1, stress_level = ''High'', food_quality = ''Unhealthy'',
      day_rating = ''ok''\<rparr>"

definition scenario_3 :: MoodInput where
  "scenario_3 = scenario_1\<lparr>water_intake := 20\<rparr>"

text \<open>Scenario 1 with an empty day summary.\<close>

definition empty_day_input :: MoodInput where
  "empty_day_input = scenario_1\<lparr>day_rating := []\<rparr>"

text \<open>Scenario 1 with very large values in the two unbounded fields.\<close>

definition crowded_input :: MoodInput where
  "crowded_input =
     scenario_1\<lparr>people_met := 1000000000000000000000000000000, exercise := 4000000000000\<rparr>"

text \<open>
  A scorer and a rule table to run the handler on. They stand in for the absent modules
  in examples only; no theorem about the handler depends on them.
\<close>

definition example_scorer :: scorer where
  "example_scorer inp =
     Inr (max 0 (min 10 (sleep inp * 5 / 12 - screen_time inp / 768
                         + (if day_rating inp = ''great'' then 1 else 0))))"

definition failing_scorer :: scorer where
  "failing_scorer inp = Inl (OtherException ''model file not found'')"

definition example_table :: "threshold_rule list" where
  "example_table =
     [\<lparr>fires = (\<lambda>m. sleep m < 6),
       emits = \<lparr>priority = High, recommendation = ''Sleep at least seven hours'', category = ''sleep''\<rparr>\<rparr>,
      \<lparr>fires = (\<lambda>m. 8 < screen_time m),
       emits = \<lparr>priority = Medium, recommendation = ''Reduce screen time'', category = ''screen_time''\<rparr>\<rparr>,
      \<lparr>fires = (\<lambda>m. stress_level m = ''High''),
       emits = \<lparr>priority = High, recommendation = ''Take time to relax'', category = ''stress''\<rparr>\<rparr>,
      \<lparr>fires = (\<lambda>m. food_quality m = ''Unhealthy''),
       emits = \<lparr>priority = Medium, recommendation = ''Eat a balanced meal'', category = ''nutrition''\<rparr>\<rparr>,
      \<lparr>fires = (\<lambda>m. outdoor_time m < 1 / 2),
       emits = \<lparr>priority = Low, recommendation = ''Spend time outdoors'', category = ''outdoors''\<rparr>\<rparr>,
      \<lparr>fires = (\<lambda>m. people_met m = 0),
       emits = \<lparr>priority = Low, recommendation = ''Meet a friend'', category = ''social''\<rparr>\<rparr>]"

definition example_recommender :: recommender where
  "example_recommender m = Inr (generate_recommendations example_table m)"

definition failing_recommender :: recommender where
  "failing_recommender m = Inl (KeyError ''priority'')"

section \<open>Facts about the model\<close>

subsection \<open>Validation\<close>

lemma scorer_args_id: "scorer_args p = p"
  by (simp add: scorer_args_def)

lemma float_field_water_intake:
  "float_field ''water_intake'' v = [] \<longleftrightarrow> 0 \<le> v \<and> v \<le> 15"
  by (auto simp add: float_field_def check_reasonable_values_def max_values_def)

lemma float_field_sleep:
  "float_field ''sleep'' v = [] \<longleftrightarrow> 0 \<le> v \<and> v \<le> 24"
  by (auto simp add: float_field_def check_reasonable_values_def max_values_def)

lemma float_field_screen_time:
  "float_field ''screen_time'' v = [] \<longleftrightarrow> 0 \<le> v \<and> v \<le> 24"
  by (auto simp add: float_field_def check_reasonable_values_def max_values_def)

lemma float_field_outdoor_time:
  "float_field ''outdoor_time'' v = [] \<longleftrightarrow> 0 \<le> v \<and> v \<le> 24"
  by (auto simp add: float_field_def check_reasonable_values_def max_values_def)

lemma float_field_too_high:
  "max_values name = Some m \<Longrightarrow> 0 \<le> m \<Longrightarrow> m < v \<Longrightarrow>
     float_field name v = [(name, value_error (ValueError (name @ '' seems unreasonably high'')))]"
  by (simp add: float_field_def check_reasonable_values_def)

lemma max_values_simps:
  "max_values ''water_intake'' = Some 15" "max_values ''sleep'' = Some 24"
  "max_values ''screen_time'' = Some 24" "max_values ''outdoor_time'' = Some 24"
  by (simp_all add: max_values_def)

lemma int_field_Nil: "int_field name v = [] \<longleftrightarrow> 0 \<le> v"
  by (simp add: int_field_def)

lemma literal_field_Nil: "literal_field name allowed v = [] \<longleftrightarrow> v \<in> set allowed"
  by (simp add: literal_field_def)

lemma validation_errors_Nil:
  "validation_errors p = [] \<longleftrightarrow>
     0 \<le> water_intake p \<and> water_intake p \<le> 15
     \<and> 0 \<le> people_met p \<and> 0 \<le> exercise p
     \<and> 0 \<le> sleep p \<and> sleep p \<le> 24
     \<and> 0 \<le> screen_time p \<and> screen_time p \<le> 24
     \<and> 0 \<le> outdoor_time p \<and> outdoor_time p \<le> 24
     \<and> stress_level p \<in> {''Low'', ''Medium'', ''High''}
     \<and> food_quality p \<in> {''Healthy'', ''Moderate'', ''Unhealthy''}"
  unfolding validation_errors_def append_is_Nil_conv float_field_water_intake float_field_sleep
    float_field_screen_time float_field_outdoor_time int_field_Nil literal_field_Nil str_field_def
  by simp

lemma model_validate_Inr: "model_validate p = Inr q \<longleftrightarrow> q = p \<and> validation_errors p = []"
  by (auto simp add: model_validate_def Let_def)

lemma model_validate_Inl: "model_validate p = Inl errs \<longleftrightarrow> errs = validation_errors p \<and> errs \<noteq> []"
  by (auto simp add: model_validate_def Let_def)

lemma post_predict_valid:
  "validation_errors p = [] \<Longrightarrow> post_predict f g p = predict_mood f g p"
  by (simp add: post_predict_def model_validate_def)

lemma post_predict_invalid:
  "validation_errors p \<noteq> [] \<Longrightarrow> post_predict f g p = (Http422 (validation_errors p), [])"
  by (simp add: post_predict_def model_validate_def)

subsection \<open>Rounding\<close>

lemma round_half_even_bounds:
  assumes "of_int a \<le> y" and "y \<le> of_int b"
  shows "a \<le> round_half_even y \<and> round_half_even y \<le> b"
proof -
  have fa: "a \<le> \<lfloor>y\<rfloor>" using assms(1) by (simp add: le_floor_iff)
  have fb: "\<lfloor>y\<rfloor> \<le> b" using assms(2) by (simp add: floor_le_iff)
  show ?thesis
  proof (cases "\<lfloor>y\<rfloor> = b")
    case True
    then have "y - of_int \<lfloor>y\<rfloor> \<le> 0" using assms(2) by simp
    then show ?thesis using fa True by (simp add: round_half_even_def Let_def)
  next
    case False
    then have "\<lfloor>y\<rfloor> + 1 \<le> b" using fb by simp
    then show ?thesis using fa by (auto simp add: round_half_even_def Let_def)
  qed
qed

lemma py_round_1_range:
  assumes "0 \<le> x" and "x \<le> 10"
  shows "0 \<le> py_round x 1 \<and> py_round x 1 \<le> 10"
proof -
  have "of_int 0 \<le> x * 10" and "x * 10 \<le> of_int 100" using assms by simp_all
  then have "0 \<le> round_half_even (x * 10) \<and> round_half_even (x * 10) \<le> 100"
    by (rule round_half_even_bounds)
  then show ?thesis by (simp add: py_round_def)
qed

subsection \<open>The handler's three outcomes\<close>

lemma predict_mood_scorer_fails:
  "f p = Inl e \<Longrightarrow> predict_mood f g p = (Http500 (str_exn e), [ScorerCall p])"
  by (simp add: predict_mood_def scorer_args_id)

lemma predict_mood_recommender_fails:
  "f p = Inr s \<Longrightarrow> g (recommender_args p) = Inl e \<Longrightarrow>
     predict_mood f g p = (Http500 (str_exn e), [ScorerCall p, RecommenderCall (recommender_args p)])"
  by (simp add: predict_mood_def scorer_args_id)

lemma predict_mood_500_cases:
  assumes "fst (predict_mood f g p) = Http500 d"
  shows "\<exists>e. d = str_exn e \<and> (f p = Inl e \<or> (\<exists>s. f p = Inr s \<and> g (recommender_args p) = Inl e))"
  using assms by (auto simp add: predict_mood_def scorer_args_id split: sum.splits)

lemma post_predict_500:
  assumes "fst (post_predict f g p) = Http500 d"
  shows "validation_errors p = [] \<and> fst (predict_mood f g p) = Http500 d"
  using assms by (cases "validation_errors p = []") (simp_all add: post_predict_valid post_predict_invalid)

subsection \<open>The stable sort of the recommender\<close>

lemma priority_order_inj: "priority_order a = priority_order b \<longleftrightarrow> a = b"
  by (cases a; cases b) simp_all

lemma generate_recommendations_sorted:
  "sorted_wrt (\<lambda>a b. priority_order (priority a) \<le> priority_order (priority b))
     (generate_recommendations rule_table m)"
proof -
  have "sorted (map (\<lambda>r. priority_order (priority r)) (generate_recommendations rule_table m))"
    unfolding generate_recommendations_def by (rule sorted_sort_key)
  then show ?thesis by (simp add: sorted_map)
qed

lemma generate_recommendations_stable:
  "filter (\<lambda>r. priority r = k) (generate_recommendations rule_table m) =
     map emits (filter (\<lambda>r. fires r m \<and> priority (emits r) = k) rule_table)"
proof -
  have "filter (\<lambda>r. priority r = k) (generate_recommendations rule_table m) =
      filter (\<lambda>r. priority_order (priority r) = priority_order k)
        (sort_key (\<lambda>r. priority_order (priority r)) (fired rule_table m))"
    by (simp add: generate_recommendations_def priority_order_inj)
  also have "\<dots> = filter (\<lambda>r. priority_order (priority r) = priority_order k) (fired rule_table m)"
    by (rule sort_key_stable)
  also have "\<dots> = map emits (filter (\<lambda>r. fires r m \<and> priority (emits r) = k) rule_table)"
    by (simp add: fired_def priority_order_inj filter_map comp_def conj_commute)
  finally show ?thesis .
qed

subsection \<open>The handler on the example inputs\<close>

lemma minimum_input_valid: "validation_errors minimum_input = []"
  by (simp add: validation_errors_Nil minimum_input_def)

lemma maximum_input_valid: "validation_errors maximum_input = []"
  by (simp add: validation_errors_Nil maximum_input_def)

lemma scenario_1_valid: "validation_errors scenario_1 = []"
  by (simp add: validation_errors_Nil scenario_1_def)

lemma scenario_2_valid: "validation_errors scenario_2 = []"
  by (simp add: validation_errors_Nil scenario_2_def)

lemma predict_mood_Ok:
  assumes "f p = Inr s" and "g (recommender_args p) = Inr recs"
  shows "predict_mood f g p =
    (Ok200 \<lparr>mood_score = py_round s 1, recommendations = recs\<rparr>,
     [ScorerCall p, RecommenderCall (recommender_args p)])"
  using assms by (simp add: predict_mood_def scorer_args_id)

lemma py_round_examples:
  "py_round 0 1 = 0" "py_round (319 / 32) 1 = 10" "py_round (599 / 192) 1 = 31 / 10"
  by (simp_all add: py_round_def round_half_even_def)

lemma py_round_more:
  "py_round (79 / 64) 1 = 6 / 5" "py_round (143 / 64) 1 = 11 / 5"
  by (simp_all add: py_round_def round_half_even_def)

lemma post_predict_example:
  assumes "validation_errors p = []" and "example_scorer p = Inr s" and "py_round s 1 = r"
  shows "post_predict example_scorer example_recommender p =
    (Ok200 \<lparr>mood_score = r,
            recommendations = generate_recommendations example_table (recommender_args p)\<rparr>,
     [ScorerCall p, RecommenderCall (recommender_args p)])"
  using assms by (simp add: post_predict_valid predict_mood_Ok example_recommender_def)

lemma scenario_2_recommendations:
  "generate_recommendations example_table (recommender_args scenario_2) =
     [\<lparr>priority = High, recommendation = ''Sleep at least seven hours'', category = ''sleep''\<rparr>,
      \<lparr>priority = High, recommendation = ''Take time to relax'', category = ''stress''\<rparr>,
      \<lparr>priority = Medium, recommendation = ''Reduce screen time'', category = ''screen_time''\<rparr>,
      \<lparr>priority = Medium, recommendation = ''Eat a balanced meal'', category = ''nutrition''\<rparr>,
      \<lparr>priority = Low, recommendation = ''Meet a friend'', category = ''social''\<rparr>]"
  by (simp add: generate_recommendations_def fired_def example_table_def recommender_args_def
      scenario_2_def)

section \<open>The claims\<close>

subsection \<open>C1: the reported mood score lies in [0,10]\<close>

text \<open>
  C1. For every input accepted by validation, the mood score that POST /predict returns,
  after the handler's rounding to one decimal place, lies in the closed interval [0,10].
  The scorer is any function that keeps its contract \<^const>\<open>scorer_in_range\<close>; what the
  handler adds is \<^verbatim>\<open>round(mood_score, 1)\<close>, and rounding to one decimal cannot leave
  [0,10], since both ends are multiples of one tenth.
\<close>

theorem rounded_score_in_range:
  assumes "scorer_in_range predict_mood_score"
    and "post_predict predict_mood_score generate_recs payload = (Ok200 out, evs)"
  shows "0 \<le> mood_score out \<and> mood_score out \<le> 10"
proof -
  from assms(2) have valid: "model_validate payload = Inr payload"
    and run: "predict_mood predict_mood_score generate_recs payload = (Ok200 out, evs)"
    by (auto simp add: post_predict_def model_validate_Inr split: sum.splits)
  from run obtain score where score: "predict_mood_score payload = Inr score"
    and out: "mood_score out = py_round score 1"
    by (auto simp add: predict_mood_def scorer_args_id split: sum.splits)
  from assms(1) valid score have "0 \<le> score \<and> score \<le> 10"
    unfolding scorer_in_range_def by blast
  then show ?thesis unfolding out using py_round_1_range by blast
qed

text \<open>
  The minimum-metric input, the maximum-allowed-metric input and scenario 1 under the
  example scorer: raw scores 0, 9.96875 and 3.1198, reported as 0, 10 and 3.1.
\<close>

theorem rounded_score_in_range_witness:
  "scorer_in_range example_scorer
   \<and> (\<exists>out evs. post_predict example_scorer example_recommender minimum_input = (Ok200 out, evs)
        \<and> mood_score out = 0 \<and> 0 \<le> mood_score out \<and> mood_score out \<le> 10)
   \<and> (\<exists>out evs. post_predict example_scorer example_recommender maximum_input = (Ok200 out, evs)
        \<and> mood_score out = 10 \<and> 0 \<le> mood_score out \<and> mood_score out \<le> 10)
   \<and> (\<exists>out evs. post_predict example_scorer example_recommender scenario_1 = (Ok200 out, evs)
        \<and> mood_score out = 31 / 10 \<and> 0 \<le> mood_score out \<and> mood_score out \<le> 10)"
proof -
  have c: "scorer_in_range example_scorer"
    by (auto simp add: scorer_in_range_def example_scorer_def)
  have "example_scorer minimum_input = Inr 0"
    by (simp add: example_scorer_def minimum_input_def)
  note post_predict_example [OF minimum_input_valid this py_round_examples(1)]
  then obtain o1 e1
    where r1: "post_predict example_scorer example_recommender minimum_input = (Ok200 o1, e1)"
      and s1: "mood_score o1 = 0"
    by simp
  have "example_scorer maximum_input = Inr (319 / 32)"
    by (simp add: example_scorer_def maximum_input_def)
  note post_predict_example [OF maximum_input_valid this py_round_examples(2)]
  then obtain o2 e2
    where r2: "post_predict example_scorer example_recommender maximum_input = (Ok200 o2, e2)"
      and s2: "mood_score o2 = 10"
    by simp
  have "example_scorer scenario_1 = Inr (599 / 192)"
    by (simp add: example_scorer_def scenario_1_def)
  note post_predict_example [OF scenario_1_valid this py_round_examples(3)]
  then obtain o3 e3
    where r3: "post_predict example_scorer example_recommender scenario_1 = (Ok200 o3, e3)"
      and s3: "mood_score o3 = 31 / 10"
    by simp
  show ?thesis
    using c r1 s1 r2 s2 r3 s3
      rounded_score_in_range [OF c r1] rounded_score_in_range [OF c r2]
      rounded_score_in_range [OF c r3]
    by blast
qed

subsection \<open>C2: the upper bounds are inclusive, and a value above one is rejected\<close>

text \<open>
  C2. A payload in which \<^verbatim>\<open>water_intake\<close> exceeds 15, or \<^verbatim>\<open>sleep\<close>, \<^verbatim>\<open>screen_time\<close> or
  \<^verbatim>\<open>outdoor_time\<close> exceeds 24, is rejected by validation whatever its other fields are:
  the answer is status 422, the error names the field with the validator's message, and
  neither the scorer nor the recommender is called (no event is recorded). A value equal
  to its bound is accepted: in a valid payload, each of the four fields, and all four at
  once, may be set to its bound, and the request then reaches the handler.
\<close>

theorem upper_bounds_inclusive:
  "(15 < water_intake p \<or> 24 < sleep p \<or> 24 < screen_time p \<or> 24 < outdoor_time p \<longrightarrow>
      validation_errors p \<noteq> []
      \<and> model_validate p = Inl (validation_errors p)
      \<and> post_predict f g p = (Http422 (validation_errors p), []))
   \<and> (15 < water_intake p \<longrightarrow>
        (''water_intake'', value_error (ValueError ''water_intake seems unreasonably high''))
          \<in> set (validation_errors p))
   \<and> (24 < sleep p \<longrightarrow>
        (''sleep'', value_error (ValueError ''sleep seems unreasonably high''))
          \<in> set (validation_errors p))
   \<and> (24 < screen_time p \<longrightarrow>
        (''screen_time'', value_error (ValueError ''screen_time seems unreasonably high''))
          \<in> set (validation_errors p))
   \<and> (24 < outdoor_time p \<longrightarrow>
        (''outdoor_time'', value_error (ValueError ''outdoor_time seems unreasonably high''))
          \<in> set (validation_errors p))
   \<and> (model_validate q = Inr q \<longrightarrow>
        model_validate (q\<lparr>water_intake := 15\<rparr>) = Inr (q\<lparr>water_intake := 15\<rparr>)
        \<and> model_validate (q\<lparr>sleep := 24\<rparr>) = Inr (q\<lparr>sleep := 24\<rparr>)
        \<and> model_validate (q\<lparr>screen_time := 24\<rparr>) = Inr (q\<lparr>screen_time := 24\<rparr>)
        \<and> model_validate (q\<lparr>outdoor_time := 24\<rparr>) = Inr (q\<lparr>outdoor_time := 24\<rparr>)
        \<and> model_validate (q\<lparr>water_intake := 15, sleep := 24, screen_time := 24, outdoor_time := 24\<rparr>)
            = Inr (q\<lparr>water_intake := 15, sleep := 24, screen_time := 24, outdoor_time := 24\<rparr>)
        \<and> post_predict f g (q\<lparr>sleep := 24\<rparr>) = predict_mood f g (q\<lparr>sleep := 24\<rparr>))"
proof -
  have w: "15 < water_intake p \<Longrightarrow>
      (''water_intake'', value_error (ValueError ''water_intake seems unreasonably high''))
        \<in> set (validation_errors p)"
    by (simp add: validation_errors_def float_field_too_high [OF max_values_simps(1)])
  have s: "24 < sleep p \<Longrightarrow>
      (''sleep'', value_error (ValueError ''sleep seems unreasonably high''))
        \<in> set (validation_errors p)"
    by (simp add: validation_errors_def float_field_too_high [OF max_values_simps(2)])
  have t: "24 < screen_time p \<Longrightarrow>
      (''screen_time'', value_error (ValueError ''screen_time seems unreasonably high''))
        \<in> set (validation_errors p)"
    by (simp add: validation_errors_def float_field_too_high [OF max_values_simps(3)])
  have d: "24 < outdoor_time p \<Longrightarrow>
      (''outdoor_time'', value_error (ValueError ''outdoor_time seems unreasonably high''))
        \<in> set (validation_errors p)"
    by (simp add: validation_errors_def float_field_too_high [OF max_values_simps(4)])
  have rej: "15 < water_intake p \<or> 24 < sleep p \<or> 24 < screen_time p \<or> 24 < outdoor_time p
      \<Longrightarrow> validation_errors p \<noteq> []"
    by (auto simp add: validation_errors_Nil)
  have acc: "model_validate q = Inr q \<Longrightarrow>
        model_validate (q\<lparr>water_intake := 15\<rparr>) = Inr (q\<lparr>water_intake := 15\<rparr>)
        \<and> model_validate (q\<lparr>sleep := 24\<rparr>) = Inr (q\<lparr>sleep := 24\<rparr>)
        \<and> model_validate (q\<lparr>screen_time := 24\<rparr>) = Inr (q\<lparr>screen_time := 24\<rparr>)
        \<and> model_validate (q\<lparr>outdoor_time := 24\<rparr>) = Inr (q\<lparr>outdoor_time := 24\<rparr>)
        \<and> model_validate (q\<lparr>water_intake := 15, sleep := 24, screen_time := 24, outdoor_time := 24\<rparr>)
            = Inr (q\<lparr>water_intake := 15, sleep := 24, screen_time := 24, outdoor_time := 24\<rparr>)
        \<and> post_predict f g (q\<lparr>sleep := 24\<rparr>) = predict_mood f g (q\<lparr>sleep := 24\<rparr>)"
    by (simp add: model_validate_Inr validation_errors_Nil post_predict_valid)
  show ?thesis
    using w s t d rej acc by (simp add: model_validate_Inl post_predict_invalid)
qed

text \<open>
  Scenario 3 (\<^verbatim>\<open>water_intake = 20\<close>) and scenario 2 with \<^verbatim>\<open>sleep = 25\<close> are rejected with
  one error each; scenario 2 with \<^verbatim>\<open>sleep = 24\<close> or \<^verbatim>\<open>water_intake = 15\<close> is accepted.
\<close>

theorem upper_bounds_inclusive_witness:
  "15 < water_intake scenario_3
   \<and> post_predict example_scorer example_recommender scenario_3 =
       (Http422 [(''water_intake'', value_error (ValueError ''water_intake seems unreasonably high''))], [])
   \<and> 24 < sleep (scenario_2\<lparr>sleep := 25\<rparr>)
   \<and> post_predict example_scorer example_recommender (scenario_2\<lparr>sleep := 25\<rparr>) =
       (Http422 [(''sleep'', value_error (ValueError ''sleep seems unreasonably high''))], [])
   \<and> model_validate scenario_2 = Inr scenario_2
   \<and> model_validate (scenario_2\<lparr>sleep := 24\<rparr>) = Inr (scenario_2\<lparr>sleep := 24\<rparr>)
   \<and> model_validate (scenario_2\<lparr>water_intake := 15\<rparr>) = Inr (scenario_2\<lparr>water_intake := 15\<rparr>)"
proof -
  have e3: "validation_errors scenario_3 =
      [(''water_intake'', value_error (ValueError ''water_intake seems unreasonably high''))]"
    by (simp add: validation_errors_def scenario_3_def scenario_1_def float_field_def int_field_def
        literal_field_def str_field_def check_reasonable_values_def max_values_def)
  have e25: "validation_errors (scenario_2\<lparr>sleep := 25\<rparr>) =
      [(''sleep'', value_error (ValueError ''sleep seems unreasonably high''))]"
    by (simp add: validation_errors_def scenario_2_def float_field_def int_field_def
        literal_field_def str_field_def check_reasonable_values_def max_values_def)
  have w3: "15 < water_intake scenario_3"
    by (simp add: scenario_3_def)
  have s25: "24 < sleep (scenario_2\<lparr>sleep := 25\<rparr>)"
    by simp
  have v2: "model_validate scenario_2 = Inr scenario_2"
    by (simp add: model_validate_Inr scenario_2_valid)
  show ?thesis
    using w3 s25 v2 e3 e25
      upper_bounds_inclusive [where p = scenario_3 and f = example_scorer
        and g = example_recommender and q = scenario_2]
      upper_bounds_inclusive [where p = "scenario_2\<lparr>sleep := 25\<rparr>" and f = example_scorer
        and g = example_recommender and q = scenario_2]
    by simp
qed

subsection \<open>C3: an empty day_rating\<close>

text \<open>
  C3 asks that an empty \<^verbatim>\<open>day_rating\<close> be rejected. The field is declared \<^verbatim>\<open>str\<close> with a
  description only: no minimum length and no validator. Scenario 1 with an empty \<^verbatim>\<open>day_rating\<close> passes validation, and the
  handler runs the scorer and the recommender on it.
\<close>

theorem empty_day_rating_accepted:
  "day_rating empty_day_input = []
   \<and> model_validate empty_day_input = Inr empty_day_input
   \<and> post_predict example_scorer example_recommender empty_day_input =
       (Ok200 \<lparr>mood_score = 31 / 10, recommendations = []\<rparr>,
        [ScorerCall empty_day_input, RecommenderCall (recommender_args empty_day_input)])"
proof -
  have v: "validation_errors empty_day_input = []"
    by (simp add: validation_errors_Nil empty_day_input_def scenario_1_def)
  have s: "example_scorer empty_day_input = Inr (599 / 192)"
    by (simp add: example_scorer_def empty_day_input_def scenario_1_def)
  have r: "generate_recommendations example_table (recommender_args empty_day_input) = []"
    by (simp add: generate_recommendations_def fired_def example_table_def recommender_args_def
        empty_day_input_def scenario_1_def)
  show ?thesis
    using post_predict_example [OF v s py_round_examples(3)] v r
    by (simp add: model_validate_Inr empty_day_input_def)
qed

text \<open>
  C3, as the code has it. Validation never looks at \<^verbatim>\<open>day_rating\<close>: changing it changes
  no validation error. So a payload whose \<^verbatim>\<open>day_rating\<close> is the empty string is accepted
  whenever its other fields satisfy their constraints, and the handler then calls the
  scorer with the empty \<^verbatim>\<open>day_rating\<close>; it is rejected only for another field.
\<close>

theorem day_rating_unconstrained:
  "validation_errors (p\<lparr>day_rating := s\<rparr>) = validation_errors p
   \<and> (model_validate p = Inr p \<longrightarrow>
        model_validate (p\<lparr>day_rating := []\<rparr>) = Inr (p\<lparr>day_rating := []\<rparr>)
        \<and> post_predict f g (p\<lparr>day_rating := []\<rparr>) = predict_mood f g (p\<lparr>day_rating := []\<rparr>)
        \<and> (\<exists>rest. snd (post_predict f g (p\<lparr>day_rating := []\<rparr>))
              = ScorerCall (p\<lparr>day_rating := []\<rparr>) # rest))"
proof -
  have same: "validation_errors (p\<lparr>day_rating := t\<rparr>) = validation_errors p" for t
    by (simp add: validation_errors_def str_field_def)
  have calls: "\<exists>rest. snd (predict_mood f g x) = ScorerCall x # rest" for x
    by (simp add: predict_mood_def scorer_args_id split: sum.splits)
  show ?thesis
    using same calls by (simp add: model_validate_Inr post_predict_valid)
qed

text \<open>
  Scenario 1 stays valid with an empty \<^verbatim>\<open>day_rating\<close>; scenario 3 keeps its one error.
\<close>

theorem day_rating_unconstrained_witness:
  "model_validate scenario_1 = Inr scenario_1
   \<and> model_validate (scenario_1\<lparr>day_rating := []\<rparr>) = Inr (scenario_1\<lparr>day_rating := []\<rparr>)
   \<and> validation_errors (scenario_3\<lparr>day_rating := []\<rparr>) = validation_errors scenario_3"
  using day_rating_unconstrained [where p = scenario_1 and s = "[]"]
    day_rating_unconstrained [where p = scenario_3 and s = "[]"]
  by (simp add: model_validate_Inr scenario_1_valid)

subsection \<open>C5: the order of the recommendations\<close>

text \<open>
  C5. The sequence the recommender returns has non-increasing priorities in sequence
  order: no entry is followed, anywhere later, by one of higher priority, so every High
  entry comes before every Medium entry and every Medium entry before every Low entry.
  Entries of equal priority appear in the declaration order of the rule table: the
  entries of priority \<open>k\<close> are exactly the recommendations of the fired rules of priority
  \<open>k\<close>, in table order. This holds of the recommender as the spec describes it
  (\<^const>\<open>generate_recommendations\<close>), for every rule table and every input.
\<close>

theorem recommendations_ordered:
  "sorted_wrt (\<lambda>a b. priority_order (priority a) \<le> priority_order (priority b))
     (generate_recommendations rule_table m)
   \<and> filter (\<lambda>r. priority r = k) (generate_recommendations rule_table m) =
       map emits (filter (\<lambda>r. fires r m \<and> priority (emits r) = k) rule_table)"
  using generate_recommendations_sorted generate_recommendations_stable by blast

text \<open>
  Scenario 2 on the example table: five rules fire in the table order High, Medium, High,
  Medium, Low, and the result lists the two High entries first, then the two Medium ones,
  each pair in table order, then the Low one.
\<close>

theorem recommendations_ordered_witness:
  "generate_recommendations example_table (recommender_args scenario_2) =
     [\<lparr>priority = High, recommendation = ''Sleep at least seven hours'', category = ''sleep''\<rparr>,
      \<lparr>priority = High, recommendation = ''Take time to relax'', category = ''stress''\<rparr>,
      \<lparr>priority = Medium, recommendation = ''Reduce screen time'', category = ''screen_time''\<rparr>,
      \<lparr>priority = Medium, recommendation = ''Eat a balanced meal'', category = ''nutrition''\<rparr>,
      \<lparr>priority = Low, recommendation = ''Meet a friend'', category = ''social''\<rparr>]
   \<and> sorted_wrt (\<lambda>a b. priority_order (priority a) \<le> priority_order (priority b))
       (generate_recommendations example_table (recommender_args scenario_2))
   \<and> filter (\<lambda>r. priority r = High) (generate_recommendations example_table (recommender_args scenario_2)) =
       map emits (filter (\<lambda>r. fires r (recommender_args scenario_2) \<and> priority (emits r) = High)
         example_table)"
  using scenario_2_recommendations
    recommendations_ordered [where rule_table = example_table and m = "recommender_args scenario_2"
      and k = High]
  by blast

subsection \<open>C7: a failure of the scorer or the recommender\<close>

text \<open>
  C7. When the scorer raises an exception \<open>e\<close>, the handler answers with status 500 and
  detail \<^verbatim>\<open>str(e)\<close>; the scorer has been called once and the recommender not at all. When
  the scorer returns and the recommender raises \<open>e\<close>, the answer is status 500 with detail
  \<^verbatim>\<open>str(e)\<close> after one call of each: nothing is retried, and the answer carries no score
  and no recommendation. Conversely, an answer of POST /predict with status 500 arises in
  no other way: the payload was valid and one of the two calls raised an exception whose
  text is the detail. (\<^verbatim>\<open>except Exception\<close> is what the handler catches; the model's
  exceptions are of that class. The converse is for a scorer that returns a number and a
  recommender that returns records of the declared shape, as their types here say.)
\<close>

theorem core_failure_is_500:
  "(f p = Inl e \<longrightarrow>
      predict_mood f g p = (Http500 (str_exn e), [ScorerCall p]))
   \<and> (f p = Inr s \<and> g (recommender_args p) = Inl e \<longrightarrow>
      predict_mood f g p =
        (Http500 (str_exn e), [ScorerCall p, RecommenderCall (recommender_args p)]))
   \<and> (fst (post_predict f g p) = Http500 d \<longrightarrow>
        model_validate p = Inr p
        \<and> (\<exists>x. d = str_exn x
              \<and> (f p = Inl x \<or> (\<exists>v. f p = Inr v \<and> g (recommender_args p) = Inl x))))"
  using predict_mood_scorer_fails [of f p e g] predict_mood_recommender_fails [of f p s g e]
    post_predict_500 [of f g p d] predict_mood_500_cases [of f g p d]
  by (simp add: model_validate_Inr)

text \<open>
  Scenario 2 with a scorer that raises, and with a recommender that raises a
  \<^verbatim>\<open>KeyError\<close>, whose text is the quoted key.
\<close>

theorem core_failure_is_500_witness:
  "failing_scorer scenario_2 = Inl (OtherException ''model file not found'')
   \<and> post_predict failing_scorer example_recommender scenario_2 =
       (Http500 ''model file not found'', [ScorerCall scenario_2])
   \<and> example_scorer scenario_2 = Inr (79 / 64)
   \<and> failing_recommender (recommender_args scenario_2) = Inl (KeyError ''priority'')
   \<and> post_predict example_scorer failing_recommender scenario_2 =
       (Http500 ([CHR 0x27] @ ''priority'' @ [CHR 0x27]),
        [ScorerCall scenario_2, RecommenderCall (recommender_args scenario_2)])"
proof -
  have a: "failing_scorer scenario_2 = Inl (OtherException ''model file not found'')"
    by (simp add: failing_scorer_def)
  have b: "example_scorer scenario_2 = Inr (79 / 64)"
    by (simp add: example_scorer_def scenario_2_def)
  have c: "failing_recommender (recommender_args scenario_2) = Inl (KeyError ''priority'')"
    by (simp add: failing_recommender_def)
  note t1 = core_failure_is_500 [where f = failing_scorer and g = example_recommender
      and p = scenario_2 and e = "OtherException ''model file not found''",
      THEN conjunct1, THEN mp, OF a]
  note t2 = core_failure_is_500 [where f = example_scorer and g = failing_recommender
      and p = scenario_2 and e = "KeyError ''priority''" and s = "79 / 64",
      THEN conjunct2, THEN conjunct1, THEN mp, OF conjI [OF b c]]
  have p1: "post_predict failing_scorer example_recommender scenario_2 =
      (Http500 ''model file not found'', [ScorerCall scenario_2])"
    unfolding post_predict_valid [OF scenario_2_valid] t1 by simp
  have p2: "post_predict example_scorer failing_recommender scenario_2 =
      (Http500 ([CHR 0x27] @ ''priority'' @ [CHR 0x27]),
       [ScorerCall scenario_2, RecommenderCall (recommender_args scenario_2)])"
    unfolding post_predict_valid [OF scenario_2_valid] t2 by simp
  show ?thesis
    using a b c p1 p2 by blast
qed

subsection \<open>C9: people_met and exercise have no upper bound\<close>

text \<open>
  C9. In a payload whose other fields satisfy their constraints, \<^verbatim>\<open>people_met\<close> and
  \<^verbatim>\<open>exercise\<close> may be any nonnegative integers, however large: the payload passes
  validation, the handler runs, the scorer is called with these values, and once the
  scorer has returned a score the recommender is called with them too.
\<close>

theorem people_met_exercise_unbounded:
  assumes "model_validate p = Inr p" and "0 \<le> n" and "0 \<le> k"
  shows "model_validate (p\<lparr>people_met := n, exercise := k\<rparr>) = Inr (p\<lparr>people_met := n, exercise := k\<rparr>)
    \<and> post_predict f g (p\<lparr>people_met := n, exercise := k\<rparr>)
        = predict_mood f g (p\<lparr>people_met := n, exercise := k\<rparr>)
    \<and> (\<exists>rest. snd (post_predict f g (p\<lparr>people_met := n, exercise := k\<rparr>))
          = ScorerCall (p\<lparr>people_met := n, exercise := k\<rparr>) # rest)
    \<and> (f (p\<lparr>people_met := n, exercise := k\<rparr>) = Inr s \<longrightarrow>
          snd (post_predict f g (p\<lparr>people_met := n, exercise := k\<rparr>))
          = [ScorerCall (p\<lparr>people_met := n, exercise := k\<rparr>),
             RecommenderCall (recommender_args (p\<lparr>people_met := n, exercise := k\<rparr>))])
    \<and> people_met (recommender_args (p\<lparr>people_met := n, exercise := k\<rparr>)) = n
    \<and> exercise (recommender_args (p\<lparr>people_met := n, exercise := k\<rparr>)) = k"
proof -
  let ?q = "p\<lparr>people_met := n, exercise := k\<rparr>"
  have v: "validation_errors ?q = []"
    using assms by (simp add: model_validate_Inr validation_errors_Nil)
  have calls: "\<exists>rest. snd (predict_mood f g ?q) = ScorerCall ?q # rest"
    by (simp add: predict_mood_def scorer_args_id split: sum.splits)
  have both: "f ?q = Inr s \<Longrightarrow>
      snd (predict_mood f g ?q) = [ScorerCall ?q, RecommenderCall (recommender_args ?q)]"
    by (simp add: predict_mood_def scorer_args_id split: sum.splits)
  have args: "people_met (recommender_args ?q) = n \<and> exercise (recommender_args ?q) = k"
    by (simp add: recommender_args_def)
  show ?thesis
    using v calls both args by (simp add: model_validate_Inr post_predict_valid)
qed

text \<open>Scenario 1 with \<^verbatim>\<open>people_met\<close> set to ten to the thirtieth.\<close>

theorem people_met_exercise_unbounded_witness:
  "model_validate scenario_1 = Inr scenario_1
   \<and> (0::int) \<le> 1000000000000000000000000000000 \<and> (0::int) \<le> 4000000000000
   \<and> model_validate crowded_input = Inr crowded_input
   \<and> snd (post_predict example_scorer example_recommender crowded_input)
       = [ScorerCall crowded_input, RecommenderCall (recommender_args crowded_input)]
   \<and> people_met (recommender_args crowded_input) = 1000000000000000000000000000000"
proof -
  have v: "model_validate scenario_1 = Inr scenario_1"
    by (simp add: model_validate_Inr scenario_1_valid)
  have n: "(0::int) \<le> 1000000000000000000000000000000" and k: "(0::int) \<le> 4000000000000"
    by simp_all
  have s: "example_scorer crowded_input = Inr (599 / 192)"
    by (simp add: example_scorer_def crowded_input_def scenario_1_def)
  show ?thesis
    using v n k s
      people_met_exercise_unbounded [OF v n k, where f = example_scorer
        and g = example_recommender and s = "599 / 192", folded crowded_input_def]
    by blast
qed

subsection \<open>C10: the recommendations do not depend on day_rating\<close>

text \<open>
  C10. The arguments the handler passes to the recommender do not contain \<^verbatim>\<open>day_rating\<close>:
  two inputs that differ only in \<^verbatim>\<open>day_rating\<close> give the same arguments. Hence whenever
  POST /predict answers both with a result, the two recommendation sequences are
  identical.
\<close>

theorem recommendations_ignore_day_rating:
  "recommender_args (inp\<lparr>day_rating := t\<rparr>) = recommender_args inp
   \<and> (fst (post_predict f g inp) = Ok200 out
       \<and> fst (post_predict f g (inp\<lparr>day_rating := t\<rparr>)) = Ok200 out'
       \<longrightarrow> recommendations out' = recommendations out)"
proof -
  have args: "recommender_args (inp\<lparr>day_rating := t\<rparr>) = recommender_args inp"
    by (simp add: recommender_args_def)
  have ok: "fst (post_predict f g x) = Ok200 y \<Longrightarrow> g (recommender_args x) = Inr (recommendations y)"
    for x y
    by (cases "validation_errors x = []")
      (auto simp add: post_predict_valid post_predict_invalid predict_mood_def split: sum.splits)
  show ?thesis
    using args ok [of inp out] ok [of "inp\<lparr>day_rating := t\<rparr>" out'] by auto
qed

text \<open>
  Scenario 2 with the day summary \<^verbatim>\<open>ok\<close> and with \<^verbatim>\<open>great\<close>: the example scorer gives
  different scores (1.2 and 2.2), the recommendations are the same.
\<close>

theorem recommendations_ignore_day_rating_witness:
  "fst (post_predict example_scorer example_recommender scenario_2) =
     Ok200 \<lparr>mood_score = 6 / 5,
            recommendations = generate_recommendations example_table (recommender_args scenario_2)\<rparr>
   \<and> fst (post_predict example_scorer example_recommender (scenario_2\<lparr>day_rating := ''great''\<rparr>)) =
     Ok200 \<lparr>mood_score = 11 / 5,
            recommendations = generate_recommendations example_table
              (recommender_args (scenario_2\<lparr>day_rating := ''great''\<rparr>))\<rparr>
   \<and> generate_recommendations example_table (recommender_args (scenario_2\<lparr>day_rating := ''great''\<rparr>))
       = generate_recommendations example_table (recommender_args scenario_2)"
proof -
  have v: "validation_errors (scenario_2\<lparr>day_rating := ''great''\<rparr>) = []"
    by (simp add: validation_errors_Nil scenario_2_def)
  have s1: "example_scorer scenario_2 = Inr (79 / 64)"
    by (simp add: example_scorer_def scenario_2_def)
  have s2: "example_scorer (scenario_2\<lparr>day_rating := ''great''\<rparr>) = Inr (143 / 64)"
    by (simp add: example_scorer_def scenario_2_def)
  have r1: "fst (post_predict example_scorer example_recommender scenario_2) =
     Ok200 \<lparr>mood_score = 6 / 5,
            recommendations = generate_recommendations example_table (recommender_args scenario_2)\<rparr>"
    unfolding post_predict_example [OF scenario_2_valid s1 py_round_more(1)] by simp
  have r2: "fst (post_predict example_scorer example_recommender (scenario_2\<lparr>day_rating := ''great''\<rparr>)) =
     Ok200 \<lparr>mood_score = 11 / 5,
            recommendations = generate_recommendations example_table
              (recommender_args (scenario_2\<lparr>day_rating := ''great''\<rparr>))\<rparr>"
    unfolding post_predict_example [OF v s2 py_round_more(2)] by simp
  note t = recommendations_ignore_day_rating [where inp = scenario_2 and t = "''great''"
      and f = example_scorer and g = example_recommender, THEN conjunct2, THEN mp,
      OF conjI [OF r1 r2]]
  show ?thesis
    using r1 r2 t by simp
qed

end
